theory Spec2Isabelle
  imports Complex_Main "HOL-Library.Sublist"
begin

section \<open>The OpenPose detector wrapper (lib\_openpose\_detector.py)\<close>

text \<open>
  The wrapper builds a parameter dictionary, starts the external engine with it, sends
  frames through the engine and writes the results to files. The engine, numpy, OpenCV and
  argparse are libraries: what they return is an input of the model (a field of the record
  \<open>world\<close> below), and each call that has an effect outside the process is one entry
  of an event list.
\<close>

subsection \<open>Strings\<close>

text \<open>Python's \<^verbatim>\<open>sub in s\<close> on strings: \<open>sub\<close> occurs somewhere in \<open>s\<close>.\<close>

fun str_in :: "string \<Rightarrow> string \<Rightarrow> bool" where
  "str_in sub [] = (sub = [])"
| "str_in sub (c # cs) = (prefix sub (c # cs) \<or> str_in sub cs)"

text \<open>Python's \<^verbatim>\<open>s.replace(c, '')\<close> for a one-character \<open>c\<close>: every occurrence is dropped.\<close>

definition str_remove :: "char \<Rightarrow> string \<Rightarrow> string" where
  "str_remove c s = filter (\<lambda>x. x \<noteq> c) s"

subsection \<open>The parameter dictionary\<close>

text \<open>
  The values of the dictionary are Python strings and booleans
  (\<^verbatim>\<open>params["face"] = False\<close>, \<^verbatim>\<open>params["model_pose"] = "COCO"\<close>).
\<close>

datatype pyval = PyStr string | PyBool bool

type_synonym params = "string \<rightharpoonup> pyval"

text \<open>What \<^verbatim>\<open>parser.parse_known_args()\<close> returns: the namespace and the leftover tokens.\<close>

record namespace =
  image_dir :: string

type_synonym known_args = "namespace \<times> string list"

text \<open>
  \<^verbatim>\<open>MODEL_PATH = OPENPOSE_HOME + "models/"\<close> with
  \<^verbatim>\<open>OPENPOSE_HOME = os.environ['OPENPOSE_HOME'] + "/"\<close>; the value of the environment
  variable is the parameter \<open>env_home\<close>.
\<close>

definition OPENPOSE_HOME :: "string \<Rightarrow> string" where
  "OPENPOSE_HOME env_home = env_home @ ''/''"

definition MODEL_PATH :: "string \<Rightarrow> string" where
  "MODEL_PATH env_home = OPENPOSE_HOME env_home @ ''models/''"

text \<open>Lines 88 to 93 of \<^verbatim>\<open>_set_openpose_params\<close>: the dictionary before the loop.\<close>

definition default_params :: "string \<Rightarrow> params" where
  "default_params env_home =
     (((((Map.empty
       (''model_folder'' \<mapsto> PyStr (MODEL_PATH env_home)))
       (''face'' \<mapsto> PyBool False))
       (''hand'' \<mapsto> PyBool True))
       (''net_resolution'' \<mapsto> PyStr ''320x240''))
       (''model_pose'' \<mapsto> PyStr ''COCO''))"

text \<open>
  One round of the loop of \<^verbatim>\<open>_set_openpose_params\<close>, at index \<open>i\<close> of the token list
  \<open>args1\<close> (\<^verbatim>\<open>args[1]\<close>). The index is below the length, and \<open>i + 1\<close> is read only when
  \<open>i\<close> is not the last index, so no read is out of range.
\<close>

definition loop_body :: "string list \<Rightarrow> nat \<Rightarrow> params \<Rightarrow> params" where
  "loop_body args1 i params =
     (let curr_item = args1 ! i;
          next_item = (if i \<noteq> length args1 - 1 then args1 ! (i + 1) else ''1'')
      in if str_in ''--'' curr_item \<and> str_in ''--'' next_item then
           (let key = str_remove CHR ''-'' curr_item
            in if params key = None then params(key \<mapsto> PyStr ''1'') else params)
         else if str_in ''--'' curr_item \<and> \<not> str_in ''--'' next_item then
           (let key = str_remove CHR ''-'' curr_item
            in if params key = None then params(key \<mapsto> PyStr next_item) else params)
         else params)"

text \<open>
  \<^verbatim>\<open>_set_openpose_params(self, command_line_args=[])\<close>. The argument is the empty list of
  the default (\<open>None\<close> here, false as a condition) or the pair of \<^verbatim>\<open>parse_known_args\<close>
  (true as a condition, whatever it holds).
\<close>

definition set_openpose_params :: "string \<Rightarrow> known_args option \<Rightarrow> params" where
  "set_openpose_params env_home command_line_args =
     (let params = default_params env_home
      in case command_line_args of
           None \<Rightarrow> params
         | Some args \<Rightarrow> fold (loop_body (snd args)) [0 ..< length (snd args)] params)"

subsection \<open>Arrays\<close>

text \<open>
  A numpy array: its shape and its elements in row-major order. The elements (32-bit
  floats for keypoints) are never computed with by the wrapper, so their type is a
  parameter. Arrays that numpy hands out hold as many elements as the shape says.
\<close>

record 'a ndarray =
  shape :: "nat list"
  elems :: "'a list"

text \<open>
  The errors of the Python modelled here: \<^verbatim>\<open>np.swapaxes\<close> on an axis the array does not
  have, reading \<^verbatim>\<open>.poseKeypoints\<close> of a tuple, \<^verbatim>\<open>np.array\<close> of arrays of different
  shapes, and \<^verbatim>\<open>np.load\<close> of a file that is not there or holds no array.
\<close>

datatype error = AxisError | AttributeError | ValueError | FileNotFoundError

text \<open>
  What the wrapper hands to \<^verbatim>\<open>np.array\<close>: an array (\<^verbatim>\<open>datum.poseKeypoints\<close>) or a list of
  arrays (\<^verbatim>\<open>datum.handKeypoints\<close>).
\<close>

datatype 'a pydata = AnArray "'a ndarray" | ArrayList "'a ndarray list"

text \<open>
  \<^verbatim>\<open>np.array(data)\<close>: of an array, a copy with the same shape and elements; of a list of
  arrays of one shape, the arrays stacked along a new first axis; of a list of arrays of
  different shapes, a \<^verbatim>\<open>ValueError\<close> (inhomogeneous shape).
\<close>

definition np_array :: "'a pydata \<Rightarrow> error + 'a ndarray" where
  "np_array data =
     (case data of
        AnArray a \<Rightarrow> Inr a
      | ArrayList [] \<Rightarrow> Inr \<lparr>shape = [0], elems = []\<rparr>
      | ArrayList (x # xs) \<Rightarrow>
          (if list_all (\<lambda>y. shape y = shape x) xs
           then Inr \<lparr>shape = Suc (length xs) # shape x, elems = concat (map elems (x # xs))\<rparr>
           else Inl ValueError))"

text \<open>
  \<^verbatim>\<open>np.swapaxes(a, axis1, axis2)\<close>: a new array, the argument is left as it is. The
  entry at an index of the result is the entry of \<open>a\<close> at that index with the two
  positions exchanged.
\<close>

fun all_indices :: "nat list \<Rightarrow> nat list list" where
  "all_indices [] = [[]]"
| "all_indices (n # ns) = concat (map (\<lambda>i. map ((#) i) (all_indices ns)) [0 ..< n])"

definition flat_index :: "nat list \<Rightarrow> nat list \<Rightarrow> nat" where
  "flat_index shp idx = foldl (\<lambda>acc (n, i). acc * n + i) 0 (zip shp idx)"

definition swap_at :: "'b list \<Rightarrow> nat \<Rightarrow> nat \<Rightarrow> 'b list" where
  "swap_at xs i j = xs[i := xs ! j, j := xs ! i]"

definition np_swapaxes :: "'a ndarray \<Rightarrow> nat \<Rightarrow> nat \<Rightarrow> error + 'a ndarray" where
  "np_swapaxes a axis1 axis2 =
     (if axis1 < length (shape a) \<and> axis2 < length (shape a)
      then Inr \<lparr>shape = swap_at (shape a) axis1 axis2,
                elems = map (\<lambda>idx. elems a ! flat_index (shape a) (swap_at idx axis1 axis2))
                          (all_indices (swap_at (shape a) axis1 axis2))\<rparr>
      else Inl AxisError)"

subsection \<open>Paths and file names\<close>

text \<open>
  \<^verbatim>\<open>"{:05d}".format(i)\<close> for the index of \<^verbatim>\<open>enumerate\<close>: the decimal digits, filled with
  zeros on the left up to five characters.
\<close>

function dec_digits :: "nat \<Rightarrow> string" where
  "dec_digits n =
     (if n < 10 then [''0123456789'' ! n]
      else dec_digits (n div 10) @ [''0123456789'' ! (n mod 10)])"
  by pat_completeness auto
termination
  by (relation "measure (\<lambda>n. n)") auto

definition format_05d :: "nat \<Rightarrow> string" where
  "format_05d i = (let s = dec_digits i in replicate (5 - length s) CHR ''0'' @ s)"

text \<open>
  \<^verbatim>\<open>os.path.dirname\<close> (posixpath): the path up to its last slash, without the slashes
  at the end unless it consists of slashes only.
\<close>

definition os_path_dirname :: "string \<Rightarrow> string" where
  "os_path_dirname p =
     (let head = rev (dropWhile (\<lambda>c. c \<noteq> CHR ''/'') (rev p))
      in if head \<noteq> [] \<and> head \<noteq> replicate (length head) CHR ''/''
         then rev (dropWhile (\<lambda>c. c = CHR ''/'') (rev head))
         else head)"

subsection \<open>The engine, the files and the screen\<close>

text \<open>
  What the engine leaves in the datum after \<^verbatim>\<open>emplaceAndPop\<close>: the body keypoints, the
  list of the two hand keypoint arrays, and the frame with the skeletons drawn.
\<close>

record ('a, 'img) datum =
  poseKeypoints :: "'a ndarray"
  handKeypoints :: "'a ndarray list"
  cvOutputData :: 'img

text \<open>
  The calls with an effect outside the process, in the order they are made. Console
  output and the clock (\<^verbatim>\<open>print\<close>, \<^verbatim>\<open>time.time\<close>) are left out. \<open>WriteNpy\<close> and
  \<open>Imwrite\<close> carry the path of the file that is written and what is written to it.
\<close>

datatype ('a, 'img) event =
    Configure params
  | Start
  | Makedirs string
  | Imread string
  | EmplaceAndPop 'img
  | WriteNpy string "'a ndarray"
  | Imwrite string 'img
  | Imshow string 'img
  | WaitKey nat

text \<open>
  Everything the program reads from outside: the two environment-derived paths, the
  result of \<^verbatim>\<open>parse_known_args\<close> on the command line, the file system, the engine, and the
  key that the \<open>i\<close>-th \<^verbatim>\<open>cv2.waitKey\<close> returns. The library calls are taken to return.
\<close>

record ('a, 'img) world =
  env_OPENPOSE_HOME :: string
  ROOT :: string
  parse_known_args :: known_args
  path_exists :: "string \<Rightarrow> bool"
  get_images_on_directory :: "string \<Rightarrow> string list"
  imread :: "string \<Rightarrow> 'img"
  emplaceAndPop :: "'img \<Rightarrow> ('a, 'img) datum"
  waitKey :: "nat \<Rightarrow> int"

subsection \<open>The detector class\<close>

record detector =
  det_params :: params

text \<open>
  \<^verbatim>\<open>__init__\<close>: the parameters come from \<^verbatim>\<open>self._set_openpose_params()\<close>, called
  without an argument, and the engine is configured with them and started.
\<close>

definition OpenposeDetector_init :: "('a, 'img) world \<Rightarrow> detector \<times> ('a, 'img) event list" where
  "OpenposeDetector_init w =
     (let params = set_openpose_params (env_OPENPOSE_HOME w) None
      in (\<lparr>det_params = params\<rparr>, [Configure params, Start]))"

text \<open>
  \<^verbatim>\<open>detect\<close> returns the datum, or the pair of joint arrays when \<^verbatim>\<open>is_return_joints\<close>
  is set. The statement \<^verbatim>\<open>np.swapaxes(hand_joints, 0, 1)\<close> is evaluated and its value
  dropped; it raises when \<^verbatim>\<open>hand_joints\<close> has fewer than two axes.
\<close>

datatype ('a, 'img) detected = Datum "('a, 'img) datum" | Joints "'a ndarray" "'a ndarray"

definition detect ::
  "('a, 'img) world \<Rightarrow> 'img \<Rightarrow> bool \<Rightarrow> (error + ('a, 'img) detected) \<times> ('a, 'img) event list"
where
  "detect w color_image is_return_joints =
     (let datum = emplaceAndPop w color_image;
          evs = [EmplaceAndPop color_image]
      in if is_return_joints then
           (case np_array (AnArray (poseKeypoints datum)) of
              Inl e \<Rightarrow> (Inl e, evs)
            | Inr body_joints \<Rightarrow>
                (case np_array (ArrayList (handKeypoints datum)) of
                   Inl e \<Rightarrow> (Inl e, evs)
                 | Inr hand_joints \<Rightarrow>
                     (case np_swapaxes hand_joints 0 1 of
                        Inl e \<Rightarrow> (Inl e, evs)
                      | Inr _ \<Rightarrow> (Inr (Joints body_joints hand_joints), evs))))
         else (Inr (Datum datum), evs))"

text \<open>
  \<^verbatim>\<open>np.save(filename, arr)\<close> writes the array to the file \<open>npy_path filename\<close>: it appends
  \<^verbatim>\<open>.npy\<close> to a file name that does not end with it.
\<close>

definition npy_path :: "string \<Rightarrow> string" where
  "npy_path filename = (if suffix ''.npy'' filename then filename else filename @ ''.npy'')"

definition np_save :: "string \<Rightarrow> 'a ndarray \<Rightarrow> ('a, 'img) event list" where
  "np_save filename arr = [WriteNpy (npy_path filename) arr]"

text \<open>
  \<^verbatim>\<open>save_binary(filename, data)\<close> is \<^verbatim>\<open>np.save(filename, np.array(data))\<close>: nothing is
  written when \<^verbatim>\<open>np.array\<close> raises. \<^verbatim>\<open>save_joints_positions\<close> saves the body keypoints,
  then the hand keypoints; an error of the second call leaves the first file written.
\<close>

definition save_binary :: "string \<Rightarrow> 'a pydata \<Rightarrow> error option \<times> ('a, 'img) event list" where
  "save_binary filename data =
     (case np_array data of
        Inl e \<Rightarrow> (Some e, [])
      | Inr arr \<Rightarrow> (None, np_save filename arr))"

definition save_joints_positions ::
  "('a, 'img) datum \<Rightarrow> string \<Rightarrow> string \<Rightarrow> error option \<times> ('a, 'img) event list" where
  "save_joints_positions datum pose_filename hand_filename =
     (case save_binary pose_filename (AnArray (poseKeypoints datum)) of
        (Some e, ev_pose) \<Rightarrow> (Some e, ev_pose)
      | (None, ev_pose) \<Rightarrow>
          (case save_binary hand_filename (ArrayList (handKeypoints datum)) of
             (r, ev_hand) \<Rightarrow> (r, ev_pose @ ev_hand)))"

definition makedir :: "('a, 'img) world \<Rightarrow> string \<Rightarrow> ('a, 'img) event list" where
  "makedir w folder =
     (let folder = os_path_dirname folder
      in if \<not> path_exists w folder then [Makedirs folder] else [])"

subsection \<open>The batch driver\<close>

text \<open>
  The loop of \<^verbatim>\<open>test_openpose_on_images\<close> over \<^verbatim>\<open>enumerate(imagePaths)\<close>, from index
  \<open>i\<close> on; \<^verbatim>\<open>break\<close> on key 27 ends it. The result is the error that ended the run, if
  any, and the events.
\<close>

fun images_loop ::
  "('a, 'img) world \<Rightarrow> string \<Rightarrow> nat \<Rightarrow> string list \<Rightarrow> error option \<times> ('a, 'img) event list"
where
  "images_loop w DST_FOLDER i [] = (None, [])"
| "images_loop w DST_FOLDER i (imagePath # rest) =
     (let color_image = imread w imagePath
      in case detect w color_image False of
           (Inl e, ev_detect) \<Rightarrow> (Some e, Imread imagePath # ev_detect)
         | (Inr (Joints _ _), ev_detect) \<Rightarrow> (Some AttributeError, Imread imagePath # ev_detect)
         | (Inr (Datum datum), ev_detect) \<Rightarrow>
             (let s = DST_FOLDER @ format_05d i @ ''_'';
                  filename_body = s @ ''body_joints.npy'';
                  filename_hand = s @ ''hand_joints.npy'';
                  filename_image = s @ ''result.jpg''
              in case save_joints_positions datum filename_body filename_hand of
                   (Some e, ev_save) \<Rightarrow> (Some e, Imread imagePath # ev_detect @ ev_save)
                 | (None, ev_save) \<Rightarrow>
                     (let image_with_skeletons_on_it = cvOutputData datum;
                          evs = Imread imagePath # ev_detect @ ev_save
                                @ [Imwrite filename_image image_with_skeletons_on_it,
                                   Imshow ''Detection Result'' image_with_skeletons_on_it,
                                   WaitKey 15];
                          key = waitKey w i
                      in if key = 27 then (None, evs)
                         else (case images_loop w DST_FOLDER (i + 1) rest of
                                 (r, ev_rest) \<Rightarrow> (r, evs @ ev_rest)))))"

definition test_openpose_on_images ::
  "('a, 'img) world \<Rightarrow> error option \<times> ('a, 'img) event list" where
  "test_openpose_on_images w =
     (let DST_FOLDER = ROOT w @ ''output/'';
          args = parse_known_args w;
          (detector, ev_init) = OpenposeDetector_init w;
          ev_dir = makedir w DST_FOLDER;
          imagePaths = get_images_on_directory w (image_dir (fst args))
      in case images_loop w DST_FOLDER 0 imagePaths of
           (r, ev_loop) \<Rightarrow> (r, ev_init @ ev_dir @ ev_loop))"

text \<open>
  What the properties below read off a run: the frames sent to the engine, the files
  written with their contents, and the dictionaries the engine was configured with.
\<close>

datatype ('a, 'img) content = NpyFile "'a ndarray" | ImageFile 'img

fun is_detection :: "('a, 'img) event \<Rightarrow> bool" where
  "is_detection (EmplaceAndPop _) = True"
| "is_detection _ = False"

fun frame_detected :: "('a, 'img) event \<Rightarrow> 'img list" where
  "frame_detected (EmplaceAndPop img) = [img]"
| "frame_detected _ = []"

fun file_written :: "('a, 'img) event \<Rightarrow> (string \<times> ('a, 'img) content) list" where
  "file_written (WriteNpy f arr) = [(f, NpyFile arr)]"
| "file_written (Imwrite f img) = [(f, ImageFile img)]"
| "file_written _ = []"

fun configured :: "('a, 'img) event \<Rightarrow> params list" where
  "configured (Configure p) = [p]"
| "configured _ = []"

definition detection_calls :: "('a, 'img) event list \<Rightarrow> nat" where
  "detection_calls evs = length (filter is_detection evs)"

definition frames_detected :: "('a, 'img) event list \<Rightarrow> 'img list" where
  "frames_detected evs = concat (map frame_detected evs)"

definition files_written :: "('a, 'img) event list \<Rightarrow> (string \<times> ('a, 'img) content) list" where
  "files_written evs = concat (map file_written evs)"

definition configured_params :: "('a, 'img) event list \<Rightarrow> params list" where
  "configured_params evs = concat (map configured evs)"

text \<open>
  The files after a run: every write puts its content under its path, a later write to
  the same path replaces the earlier one. \<^verbatim>\<open>np.load(filename)\<close> opens the file of exactly
  that name (it appends nothing) and gives back the array that \<^verbatim>\<open>np.save\<close> wrote there.
\<close>

type_synonym ('a, 'img) store = "string \<rightharpoonup> ('a, 'img) content"

definition file_store :: "('a, 'img) event list \<Rightarrow> ('a, 'img) store \<Rightarrow> ('a, 'img) store" where
  "file_store evs fs = fold (\<lambda>(f, c) m. m(f \<mapsto> c)) (files_written evs) fs"

definition np_load :: "('a, 'img) store \<Rightarrow> string \<Rightarrow> error + 'a ndarray" where
  "np_load fs filename =
     (case fs filename of
        None \<Rightarrow> Inl FileNotFoundError
      | Some (NpyFile arr) \<Rightarrow> Inr arr
      | Some (ImageFile _) \<Rightarrow> Inl ValueError)"

text \<open>
  A concrete world for evaluation: the leftover tokens of the command line, the images
  of the directory \<open>imgs/\<close> and the keys pressed are its parameters; the engine finds one
  person with one joint per array in every frame.
\<close>

definition example_world ::
  "string list \<Rightarrow> string list \<Rightarrow> (nat \<Rightarrow> int) \<Rightarrow> (real, nat) world" where
  "example_world leftover paths keys =
     \<lparr>env_OPENPOSE_HOME = ''/opt/openpose'',
      ROOT = ''/r/'',
      parse_known_args = (\<lparr>image_dir = ''imgs/''\<rparr>, leftover),
      path_exists = (\<lambda>_. False),
      get_images_on_directory = (\<lambda>d. if d = ''imgs/'' then paths else []),
      imread = length,
      emplaceAndPop = (\<lambda>img.
        \<lparr>poseKeypoints = \<lparr>shape = [1, 1, 3], elems = [10, 20, 1]\<rparr>,
         handKeypoints = [\<lparr>shape = [1, 1, 3], elems = [1, 2, 1]\<rparr>,
                          \<lparr>shape = [1, 1, 3], elems = [3, 4, 1]\<rparr>],
         cvOutputData = img\<rparr>),
      waitKey = keys\<rparr>"

definition three_images_world :: "(nat \<Rightarrow> int) \<Rightarrow> (real, nat) world" where
  "three_images_world keys = example_world [] [''a.jpg'', ''b.jpg'', ''c.jpg''] keys"

text \<open>The same world with an engine whose two hand arrays differ in shape.\<close>

definition ragged_hands_world :: "(real, nat) world" where
  "ragged_hands_world =
     (three_images_world (\<lambda>_. 0))
       \<lparr>emplaceAndPop := (\<lambda>img.
          \<lparr>poseKeypoints = \<lparr>shape = [1, 1, 3], elems = [10, 20, 1]\<rparr>,
           handKeypoints = [\<lparr>shape = [1, 1, 3], elems = [1, 2, 1]\<rparr>,
                            \<lparr>shape = [2, 1, 3], elems = [3, 4, 1, 5, 6, 1]\<rparr>],
           cvOutputData = img\<rparr>)\<rparr>"

section \<open>The parameter builder, token by token\<close>

text \<open>
  The effect of one round on the dictionary, given the current and the next token, and the
  loop as a recursion on the tokens left, \<open>d\<close> standing for what follows the last one.
\<close>

definition upd :: "params \<Rightarrow> string \<Rightarrow> string \<Rightarrow> params" where
  "upd p c n =
     (if str_in ''--'' c
      then (if p (str_remove CHR ''-'' c) = None
            then p(str_remove CHR ''-'' c \<mapsto> PyStr (if str_in ''--'' n then ''1'' else n))
            else p)
      else p)"

fun merge_d :: "string \<Rightarrow> params \<Rightarrow> string list \<Rightarrow> params" where
  "merge_d d p [] = p"
| "merge_d d p (c # r) = merge_d d (upd p c (case r of [] \<Rightarrow> d | n # _ \<Rightarrow> n)) r"

declare dec_digits.simps [simp del]

declare images_loop.simps(2) [simp del]

section \<open>Properties of the parameter builder\<close>

lemma str_in_sublist: "str_in sub s = sublist sub s"
  by (induction s) (simp_all add: sublist_Cons_right)

lemma prefix_str_in: "prefix sub s \<Longrightarrow> str_in sub s"
  by (cases s) simp_all

lemma loop_body_at:
  "loop_body (pre @ c # r) (length pre) p = upd p c (case r of [] \<Rightarrow> ''1'' | n # _ \<Rightarrow> n)"
  by (cases r) (simp_all add: loop_body_def upd_def Let_def nth_append)

lemma fold_loop_body:
  "fold (loop_body (pre @ toks)) [length pre ..< length pre + length toks] p
     = merge_d ''1'' p toks"
proof (induction toks arbitrary: pre p)
  case Nil
  show ?case by simp
next
  case (Cons c r)
  have split: "[length pre ..< length pre + length (c # r)]
                 = length pre # [length (pre @ [c]) ..< length (pre @ [c]) + length r]"
    by (simp add: upt_rec)
  have "fold (loop_body (pre @ c # r)) [length pre ..< length pre + length (c # r)] p
          = fold (loop_body ((pre @ [c]) @ r))
              [length (pre @ [c]) ..< length (pre @ [c]) + length r]
              (loop_body (pre @ c # r) (length pre) p)"
    unfolding split by simp
  also have "\<dots> = merge_d ''1'' (loop_body (pre @ c # r) (length pre) p) r"
    by (rule Cons.IH)
  finally show ?case
    by (simp add: loop_body_at)
qed

lemma set_openpose_params_merge:
  "set_openpose_params env_home (Some (ns, toks)) = merge_d ''1'' (default_params env_home) toks"
  using fold_loop_body [of "[]" toks "default_params env_home"]
  by (simp add: set_openpose_params_def)

lemma upd_keeps: "p k = Some v \<Longrightarrow> upd p c n k = Some v"
  by (auto simp: upd_def)

lemma merge_d_keeps: "p k = Some v \<Longrightarrow> merge_d d p toks k = Some v"
  by (induction toks arbitrary: p) (simp_all add: upd_keeps)

lemma set_openpose_params_keeps:
  "default_params env_home k = Some v \<Longrightarrow> set_openpose_params env_home cla k = Some v"
proof (cases cla)
  case None
  assume "default_params env_home k = Some v"
  with None show ?thesis by (simp add: set_openpose_params_def)
next
  case (Some args)
  assume "default_params env_home k = Some v"
  with Some show ?thesis
    by (cases args) (simp add: set_openpose_params_merge merge_d_keeps)
qed

lemma upd_dom:
  "dom (upd p c n) = dom p \<union> (if str_in ''--'' c then {str_remove CHR ''-'' c} else {})"
  by (auto simp: upd_def split: if_splits)

lemma merge_d_dom:
  "dom (merge_d d p toks)
     = dom p \<union> str_remove CHR ''-'' ` {t \<in> set toks. str_in ''--'' t}"
  by (induction toks arbitrary: p) (auto simp: upd_dom)

lemma merge_d_append:
  "merge_d d p (pre @ a # rest) = merge_d d (merge_d a p pre) (a # rest)"
proof (induction pre arbitrary: p)
  case Nil
  show ?case by simp
next
  case (Cons c cs)
  show ?case
    using Cons.IH [of "upd p c (case cs @ a # rest of [] \<Rightarrow> d | n # _ \<Rightarrow> n)"]
    by (cases cs) simp_all
qed

lemma merge_d_absent:
  "k \<notin> dom (merge_d d p toks) \<Longrightarrow> merge_d d' p toks k = None"
  using merge_d_dom [of d p toks] merge_d_dom [of d' p toks] by blast

lemma merge_d_flag_first:
  assumes "str_in ''--'' a" and "p (str_remove CHR ''-'' a) = None"
  shows "merge_d d p (a # rest) (str_remove CHR ''-'' a)
           = Some (PyStr (let n = (case rest of [] \<Rightarrow> d | n # _ \<Rightarrow> n)
                          in if str_in ''--'' n then ''1'' else n))"
  using assms by (simp add: merge_d_keeps upd_def Let_def)

text \<open>
  The value a flag token \<open>a\<close> gets when the tokens before it have not set its key:
  the token after it, or \<open>''1''\<close> when that one holds \<open>''--''\<close> or is missing.
\<close>

lemma flag_after_prefix:
  assumes "str_in ''--'' a"
    and "str_remove CHR ''-'' a \<notin> dom (set_openpose_params h (Some (ns, pre)))"
  shows "set_openpose_params h (Some (ns, pre @ a # rest)) (str_remove CHR ''-'' a)
           = Some (PyStr (let n = (case rest of [] \<Rightarrow> ''1'' | n # _ \<Rightarrow> n)
                          in if str_in ''--'' n then ''1'' else n))"
proof -
  have absent: "merge_d a (default_params h) pre (str_remove CHR ''-'' a) = None"
    using assms(2) by (simp add: set_openpose_params_merge merge_d_absent)
  have "merge_d ''1'' (merge_d a (default_params h) pre) (a # rest)
               (str_remove CHR ''-'' a)
             = Some (PyStr (let n = (case rest of [] \<Rightarrow> ''1'' | n # _ \<Rightarrow> n)
                            in if str_in ''--'' n then ''1'' else n))"
    by (rule merge_d_flag_first [of a "merge_d a (default_params h) pre", OF assms(1) absent])
  then show ?thesis
    by (simp only: set_openpose_params_merge merge_d_append [of _ _ pre])
qed

lemma upd_flag_next: "str_in ''--'' d \<Longrightarrow> upd p c d = upd p c ''1''"
  by (simp add: upd_def)

lemma merge_d_flag_default: "str_in ''--'' d \<Longrightarrow> merge_d d p pre = merge_d ''1'' p pre"
proof (induction pre arbitrary: p)
  case Nil
  show ?case by simp
next
  case (Cons c cs)
  then show ?case
    by (cases cs) (simp_all add: upd_flag_next)
qed

lemma params_snoc_flag:
  assumes "str_in ''--'' t"
  shows "set_openpose_params h (Some (ns, pre @ [t]))
           = upd (set_openpose_params h (Some (ns, pre))) t ''1''"
proof -
  have "merge_d ''1'' (default_params h) (pre @ [t])
          = merge_d ''1'' (merge_d t (default_params h) pre) [t]"
    by (rule merge_d_append)
  also have "\<dots> = upd (merge_d ''1'' (default_params h) pre) t ''1''"
    by (simp add: merge_d_flag_default [OF assms])
  finally show ?thesis
    by (simp only: set_openpose_params_merge)
qed

lemma flag_key_kept:
  assumes "str_in ''--'' a"
    and "set_openpose_params h (Some (ns, pre)) k = Some v"
  shows "set_openpose_params h (Some (ns, pre @ a # rest)) k = Some v"
proof -
  have "merge_d a (default_params h) pre k = Some v"
    using assms by (simp add: set_openpose_params_merge merge_d_flag_default)
  then have "merge_d ''1'' (merge_d a (default_params h) pre) (a # rest) k = Some v"
    by (rule merge_d_keeps)
  then show ?thesis
    by (simp only: set_openpose_params_merge merge_d_append [of _ _ pre])
qed

lemma default_params_dom:
  "dom (default_params env_home)
     = {''model_folder'', ''face'', ''hand'', ''net_resolution'', ''model_pose''}"
  by (auto simp: default_params_def split: if_splits)

text \<open>
  C6: whatever the argument of the parameter builder, the dictionary it returns holds the
  model directory under \<open>model_folder\<close>, the resolution string under \<open>net_resolution\<close>,
  the hand-detection flag under \<open>hand\<close> and the pose model under \<open>model_pose\<close>, each
  with the value the defaults give it.
\<close>

theorem required_keys_hold_defaults:
  "set_openpose_params env_home cla ''model_folder'' = Some (PyStr (env_home @ ''/models/''))
   \<and> set_openpose_params env_home cla ''net_resolution'' = Some (PyStr ''320x240'')
   \<and> set_openpose_params env_home cla ''hand'' = Some (PyBool True)
   \<and> set_openpose_params env_home cla ''model_pose'' = Some (PyStr ''COCO'')"
proof -
  have "default_params env_home ''model_folder'' = Some (PyStr (env_home @ ''/models/''))"
    by (simp add: default_params_def MODEL_PATH_def OPENPOSE_HOME_def)
  moreover have "default_params env_home ''net_resolution'' = Some (PyStr ''320x240'')"
    by (simp add: default_params_def)
  moreover have "default_params env_home ''hand'' = Some (PyBool True)"
    by (simp add: default_params_def)
  moreover have "default_params env_home ''model_pose'' = Some (PyStr ''COCO'')"
    by (simp add: default_params_def)
  ultimately show ?thesis
    by (simp add: set_openpose_params_keeps)
qed

text \<open>
  C2: a key of the defaults (\<open>model_folder\<close>, \<open>face\<close>, \<open>hand\<close>,
  \<open>net_resolution\<close>, \<open>model_pose\<close>) keeps its default value in the dictionary the
  parameter builder returns, whatever the overrides; for the overrides
  \<open>--face --net_resolution 160x160\<close> the key \<open>face\<close> still holds \<open>False\<close>.
\<close>

theorem defaults_first_writer_wins:
  "(default_params env_home k = Some v \<longrightarrow> set_openpose_params env_home cla k = Some v)
   \<and> dom (default_params env_home)
       = {''model_folder'', ''face'', ''hand'', ''net_resolution'', ''model_pose''}
   \<and> set_openpose_params env_home
         (Some (ns, [''--face'', ''--net_resolution'', ''160x160''])) ''face''
       = Some (PyBool False)"
proof -
  have "default_params env_home ''face'' = Some (PyBool False)"
    by (simp add: default_params_def)
  then show ?thesis
    by (simp add: set_openpose_params_keeps default_params_dom)
qed

theorem defaults_first_writer_wins_witness:
  "default_params ''/opt/openpose'' ''net_resolution'' = Some (PyStr ''320x240'')
   \<and> set_openpose_params ''/opt/openpose''
         (Some (\<lparr>image_dir = ''imgs/''\<rparr>, [''--net_resolution'', ''160x160'']))
         ''net_resolution''
       = Some (PyStr ''320x240'')"
  using defaults_first_writer_wins
    [of "''/opt/openpose''" "''net_resolution''" "PyStr ''320x240''"
        "Some (\<lparr>image_dir = ''imgs/''\<rparr>, [''--net_resolution'', ''160x160''])"]
  by (simp add: default_params_def)

text \<open>
  C3, as the spec states it, fails: the token \<open>a--b\<close> does not begin with \<open>--\<close>, yet
  after \<open>--out\<close> it is not taken as the value of \<open>out\<close> (which gets \<open>1\<close>) and is
  itself entered as the key \<open>ab\<close>; and \<open>x\<close> after \<open>--face\<close> does not become the
  value of \<open>face\<close>, which is a default.
\<close>

theorem flag_marker_prefix_counterexample:
  "\<not> prefix ''--'' ''a--b''
   \<and> set_openpose_params ''/opt/openpose''
         (Some (\<lparr>image_dir = ''imgs/''\<rparr>, [''--out'', ''a--b'', ''--face'', ''x''])) ''out''
       = Some (PyStr ''1'')
   \<and> set_openpose_params ''/opt/openpose''
         (Some (\<lparr>image_dir = ''imgs/''\<rparr>, [''--out'', ''a--b'', ''--face'', ''x''])) ''ab''
       = Some (PyStr ''1'')
   \<and> set_openpose_params ''/opt/openpose''
         (Some (\<lparr>image_dir = ''imgs/''\<rparr>, [''--out'', ''a--b'', ''--face'', ''x''])) ''face''
       = Some (PyBool False)"
  by (simp add: set_openpose_params_merge default_params_def upd_def str_remove_def)

text \<open>
  C3, amended: a token is a flag marker exactly when \<open>--\<close> occurs anywhere in it. A round
  of the loop at a token without \<open>--\<close> leaves the dictionary as it is, a round at a token
  with \<open>--\<close> leaves its key (the token without its hyphens) in the dictionary. A flag
  token whose key the defaults and the tokens before it have not set gets the token after
  it as its value when that token is without \<open>--\<close>, and the string \<open>1\<close> when that token
  holds \<open>--\<close> anywhere, which is then not taken as a value; a flag token whose key is
  set already leaves the value of that key as it is.
\<close>

theorem flag_marker_is_substring:
  "(str_in ''--'' t \<longleftrightarrow> (\<exists>u w. t = u @ ''--'' @ w))
   \<and> (i < length args1 \<and> \<not> str_in ''--'' (args1 ! i) \<longrightarrow> loop_body args1 i p = p)
   \<and> (i < length args1 \<and> str_in ''--'' (args1 ! i)
        \<longrightarrow> str_remove CHR ''-'' (args1 ! i) \<in> dom (loop_body args1 i p))
   \<and> (str_in ''--'' a \<and> \<not> str_in ''--'' b
        \<and> str_remove CHR ''-'' a \<notin> dom (set_openpose_params h (Some (ns, pre)))
        \<longrightarrow> set_openpose_params h (Some (ns, pre @ a # b # suf)) (str_remove CHR ''-'' a)
              = Some (PyStr b))
   \<and> (str_in ''--'' a \<and> str_in ''--'' c
        \<and> str_remove CHR ''-'' a \<notin> dom (set_openpose_params h (Some (ns, pre)))
        \<longrightarrow> set_openpose_params h (Some (ns, pre @ a # c # suf)) (str_remove CHR ''-'' a)
              = Some (PyStr ''1''))
   \<and> (str_in ''--'' a
        \<and> set_openpose_params h (Some (ns, pre)) (str_remove CHR ''-'' a) = Some v
        \<longrightarrow> set_openpose_params h (Some (ns, pre @ a # suf)) (str_remove CHR ''-'' a) = Some v)"
proof -
  have c1: "str_in ''--'' t \<longleftrightarrow> (\<exists>u w. t = u @ ''--'' @ w)"
    by (simp only: str_in_sublist sublist_def)
  have c2: "\<not> str_in ''--'' (args1 ! i) \<longrightarrow> loop_body args1 i p = p"
    by (simp add: loop_body_def Let_def)
  have c3: "str_in ''--'' (args1 ! i)
              \<longrightarrow> str_remove CHR ''-'' (args1 ! i) \<in> dom (loop_body args1 i p)"
    by (auto simp: loop_body_def Let_def)
  have c4: "str_in ''--'' a \<and> \<not> str_in ''--'' b
        \<and> str_remove CHR ''-'' a \<notin> dom (set_openpose_params h (Some (ns, pre)))
        \<longrightarrow> set_openpose_params h (Some (ns, pre @ a # b # suf)) (str_remove CHR ''-'' a)
              = Some (PyStr b)"
    using flag_after_prefix [of a h ns pre "b # suf"] by (simp add: Let_def)
  have c5: "str_in ''--'' a \<and> str_in ''--'' c
        \<and> str_remove CHR ''-'' a \<notin> dom (set_openpose_params h (Some (ns, pre)))
        \<longrightarrow> set_openpose_params h (Some (ns, pre @ a # c # suf)) (str_remove CHR ''-'' a)
              = Some (PyStr ''1'')"
    using flag_after_prefix [of a h ns pre "c # suf"] by (simp add: Let_def)
  have c6: "str_in ''--'' a
        \<and> set_openpose_params h (Some (ns, pre)) (str_remove CHR ''-'' a) = Some v
        \<longrightarrow> set_openpose_params h (Some (ns, pre @ a # suf)) (str_remove CHR ''-'' a) = Some v"
    using flag_key_kept [of a h ns pre "str_remove CHR ''-'' a" v suf] by blast
  from c1 c2 c3 c4 c5 c6 show ?thesis by blast
qed

theorem flag_marker_is_substring_witness:
  "(1::nat) < length [''--out'', ''a--b'']
   \<and> str_in ''--'' ([''--out'', ''a--b''] ! 1)
   \<and> str_remove CHR ''-'' ([''--out'', ''a--b''] ! 1)
       \<in> dom (loop_body [''--out'', ''a--b''] 1 Map.empty)
   \<and> (0::nat) < length [''v'']
   \<and> \<not> str_in ''--'' ([''v''] ! 0)
   \<and> loop_body [''v''] 0 (default_params ''/opt/openpose'') = default_params ''/opt/openpose''
   \<and> str_in ''--'' ''--out'' \<and> \<not> str_in ''--'' ''v'' \<and> str_in ''--'' ''a--b''
   \<and> str_remove CHR ''-'' ''--out''
       \<notin> dom (set_openpose_params ''/opt/openpose''
                 (Some (\<lparr>image_dir = ''imgs/''\<rparr>, [''--hand''])))
   \<and> set_openpose_params ''/opt/openpose''
         (Some (\<lparr>image_dir = ''imgs/''\<rparr>, [''--hand''] @ ''--out'' # ''v'' # [''a--b'']))
         (str_remove CHR ''-'' ''--out'')
       = Some (PyStr ''v'')
   \<and> set_openpose_params ''/opt/openpose''
         (Some (\<lparr>image_dir = ''imgs/''\<rparr>, [''--hand''] @ ''--out'' # ''a--b'' # [''v'']))
         (str_remove CHR ''-'' ''--out'')
       = Some (PyStr ''1'')
   \<and> str_in ''--'' ''--face''
   \<and> set_openpose_params ''/opt/openpose''
         (Some (\<lparr>image_dir = ''imgs/''\<rparr>, [''--hand''])) (str_remove CHR ''-'' ''--face'')
       = Some (PyBool False)
   \<and> set_openpose_params ''/opt/openpose''
         (Some (\<lparr>image_dir = ''imgs/''\<rparr>, [''--hand''] @ ''--face'' # [''x'']))
         (str_remove CHR ''-'' ''--face'')
       = Some (PyBool False)"
  using flag_marker_is_substring
    [of "''a--b''" 1 "[''--out'', ''a--b'']" Map.empty "''--out''" "''v''" "''/opt/openpose''"
        "\<lparr>image_dir = ''imgs/''\<rparr>" "[''--hand'']" "[''a--b'']" "''a--b''" "PyBool False"]
    flag_marker_is_substring
    [of "''a--b''" 0 "[''v'']" "default_params ''/opt/openpose''" "''--out''" "''v''"
        "''/opt/openpose''" "\<lparr>image_dir = ''imgs/''\<rparr>" "[''--hand'']" "[''v'']" "''a--b''"
        "PyBool False"]
    flag_marker_is_substring
    [of "''a--b''" 0 "[''v'']" "default_params ''/opt/openpose''" "''--face''" "''v''"
        "''/opt/openpose''" "\<lparr>image_dir = ''imgs/''\<rparr>" "[''--hand'']" "[''x'']" "''a--b''"
        "PyBool False"]
  by (simp add: set_openpose_params_merge default_params_def upd_def str_remove_def)

text \<open>
  C4, as the spec states it, fails: for the override list whose only and last token is
  \<open>--hand\<close> the key \<open>hand\<close> keeps the default \<open>True\<close> and is not the string \<open>1\<close>.
\<close>

theorem trailing_flag_counterexample:
  "prefix ''--'' (last [''--hand''])
   \<and> set_openpose_params ''/opt/openpose''
         (Some (\<lparr>image_dir = ''imgs/''\<rparr>, [''--hand'']))
         (str_remove CHR ''-'' (last [''--hand'']))
       = Some (PyBool True)
   \<and> set_openpose_params ''/opt/openpose''
         (Some (\<lparr>image_dir = ''imgs/''\<rparr>, [''--hand'']))
         (str_remove CHR ''-'' (last [''--hand'']))
       \<noteq> Some (PyStr ''1'')"
  by (simp add: set_openpose_params_merge default_params_def upd_def str_remove_def)

text \<open>
  C4, amended: when the last token of the override list is a flag marker, the dictionary
  is the one built from the tokens before it, with the string \<open>1\<close> entered under the
  key of the last token if that key is absent there: a key that neither the defaults nor
  the tokens before have set gets \<open>1\<close>, a key already present keeps its value. (The
  builder is a total function of the token list: it has no failing branch.)
\<close>

theorem trailing_flag_gets_one:
  "(str_in ''--'' t
      \<longrightarrow> set_openpose_params h (Some (ns, pre @ [t]))
            = (let params = set_openpose_params h (Some (ns, pre));
                   key = str_remove CHR ''-'' t
               in if params key = None then params(key \<mapsto> PyStr ''1'') else params))
   \<and> (str_in ''--'' t
        \<and> str_remove CHR ''-'' t \<notin> dom (set_openpose_params h (Some (ns, pre)))
      \<longrightarrow> set_openpose_params h (Some (ns, pre @ [t])) (str_remove CHR ''-'' t)
            = Some (PyStr ''1''))
   \<and> (str_in ''--'' t
        \<and> set_openpose_params h (Some (ns, pre)) (str_remove CHR ''-'' t) = Some v
      \<longrightarrow> set_openpose_params h (Some (ns, pre @ [t])) (str_remove CHR ''-'' t) = Some v)"
proof -
  have eq: "str_in ''--'' t
      \<longrightarrow> set_openpose_params h (Some (ns, pre @ [t]))
            = (let params = set_openpose_params h (Some (ns, pre));
                   key = str_remove CHR ''-'' t
               in if params key = None then params(key \<mapsto> PyStr ''1'') else params)"
    by (simp add: params_snoc_flag upd_def Let_def)
  have absent: "str_in ''--'' t
        \<and> str_remove CHR ''-'' t \<notin> dom (set_openpose_params h (Some (ns, pre)))
      \<longrightarrow> set_openpose_params h (Some (ns, pre @ [t])) (str_remove CHR ''-'' t)
            = Some (PyStr ''1'')"
    using flag_after_prefix [of t h ns pre "[]"] by simp
  have present: "str_in ''--'' t
        \<and> set_openpose_params h (Some (ns, pre)) (str_remove CHR ''-'' t) = Some v
      \<longrightarrow> set_openpose_params h (Some (ns, pre @ [t])) (str_remove CHR ''-'' t) = Some v"
    using flag_key_kept [of t h ns pre "str_remove CHR ''-'' t" v "[]"] by blast
  from eq absent present show ?thesis by blast
qed

theorem trailing_flag_gets_one_witness:
  "str_in ''--'' ''--disable_blending''
   \<and> str_remove CHR ''-'' ''--disable_blending''
       \<notin> dom (set_openpose_params ''/opt/openpose''
                 (Some (\<lparr>image_dir = ''imgs/''\<rparr>, [''--number_people_max'', ''2''])))
   \<and> set_openpose_params ''/opt/openpose''
         (Some (\<lparr>image_dir = ''imgs/''\<rparr>,
                [''--number_people_max'', ''2''] @ [''--disable_blending'']))
         (str_remove CHR ''-'' ''--disable_blending'')
       = Some (PyStr ''1'')
   \<and> str_in ''--'' ''--hand''
   \<and> set_openpose_params ''/opt/openpose''
         (Some (\<lparr>image_dir = ''imgs/''\<rparr>, [''--number_people_max'', ''2'']))
         (str_remove CHR ''-'' ''--hand'')
       = Some (PyBool True)
   \<and> set_openpose_params ''/opt/openpose''
         (Some (\<lparr>image_dir = ''imgs/''\<rparr>, [''--number_people_max'', ''2''] @ [''--hand'']))
         (str_remove CHR ''-'' ''--hand'')
       = Some (PyBool True)"
  using trailing_flag_gets_one
    [of "''--disable_blending''" "''/opt/openpose''" "\<lparr>image_dir = ''imgs/''\<rparr>"
        "[''--number_people_max'', ''2'']" "PyBool True"]
    trailing_flag_gets_one
    [of "''--hand''" "''/opt/openpose''" "\<lparr>image_dir = ''imgs/''\<rparr>"
        "[''--number_people_max'', ''2'']" "PyBool True"]
  by (simp add: set_openpose_params_merge default_params_def upd_def str_remove_def)

text \<open>
  C5: when two flag markers follow each other in the override list, the first of the two
  gets the string \<open>1\<close> as its value, provided its key is not yet in the dictionary when
  the loop reaches it (the defaults and the tokens before it have not set it).
\<close>

theorem consecutive_flags_first_gets_one:
  assumes "str_in ''--'' a" and "str_in ''--'' b"
    and "str_remove CHR ''-'' a \<notin> dom (set_openpose_params h (Some (ns, pre)))"
  shows "set_openpose_params h (Some (ns, pre @ a # b # suf)) (str_remove CHR ''-'' a)
           = Some (PyStr ''1'')"
  using flag_after_prefix [OF assms(1) assms(3), of "b # suf"] assms(2) by simp

theorem consecutive_flags_first_gets_one_witness:
  "str_in ''--'' ''--disable_blending'' \<and> str_in ''--'' ''--number_people_max''
   \<and> str_remove CHR ''-'' ''--disable_blending''
       \<notin> dom (set_openpose_params ''/opt/openpose''
                 (Some (\<lparr>image_dir = ''imgs/''\<rparr>, [''--face''])))
   \<and> set_openpose_params ''/opt/openpose''
         (Some (\<lparr>image_dir = ''imgs/''\<rparr>,
                [''--face''] @ ''--disable_blending'' # ''--number_people_max'' # [''2'']))
         (str_remove CHR ''-'' ''--disable_blending'')
       = Some (PyStr ''1'')"
proof -
  have f: "str_in ''--'' ''--disable_blending''" and g: "str_in ''--'' ''--number_people_max''"
    by simp_all
  have a: "str_remove CHR ''-'' ''--disable_blending''
             \<notin> dom (set_openpose_params ''/opt/openpose''
                       (Some (\<lparr>image_dir = ''imgs/''\<rparr>, [''--face''])))"
    by (simp add: set_openpose_params_merge default_params_def upd_def str_remove_def domIff)
  from f g a consecutive_flags_first_gets_one [OF f g a] show ?thesis by blast
qed

section \<open>Properties of the detector and the batch driver\<close>

lemma format_05d_0: "format_05d 0 = ''00000''"
  by (simp add: format_05d_def dec_digits.simps eval_nat_numeral)
lemma format_05d_1: "format_05d (Suc 0) = ''00001''"
  by (simp add: format_05d_def dec_digits.simps eval_nat_numeral)
lemma format_05d_2: "format_05d (Suc (Suc 0)) = ''00002''"
  by (simp add: format_05d_def dec_digits.simps eval_nat_numeral)

lemma suffix_npy: "suffix ''.npy'' (xs @ ''.npy'')"
  by (simp add: suffix_def)

lemma np_array_AnArray: "np_array (AnArray a) = Inr a"
  by (simp add: np_array_def)

lemma np_array_two:
  "np_array (ArrayList [L, R])
     = (if shape R = shape L
        then Inr \<lparr>shape = 2 # shape L, elems = elems L @ elems R\<rparr>
        else Inl ValueError)"
  by (simp add: np_array_def)

lemma npy_path_suffix: "suffix ''.npy'' f \<Longrightarrow> npy_path f = f"
  by (simp add: npy_path_def)

lemma npy_path_npy: "npy_path (xs @ ''.npy'') = xs @ ''.npy''"
  by (simp add: npy_path_suffix suffix_npy)

lemma save_joints_ok:
  assumes "np_array (ArrayList (handKeypoints datum)) = Inr h"
  shows "save_joints_positions datum pf hf
           = (None, [WriteNpy (npy_path pf) (poseKeypoints datum), WriteNpy (npy_path hf) h])"
  using assms
  by (simp add: save_joints_positions_def save_binary_def np_save_def np_array_AnArray)

lemma save_joints_err:
  assumes "np_array (ArrayList (handKeypoints datum)) = Inl e"
  shows "save_joints_positions datum pf hf
           = (Some e, [WriteNpy (npy_path pf) (poseKeypoints datum)])"
  using assms
  by (simp add: save_joints_positions_def save_binary_def np_save_def np_array_AnArray)

lemma body_hand_names:
  "npy_path (D @ n @ ''_body_joints.npy'') = D @ n @ ''_body_joints.npy''"
  "npy_path (D @ n @ ''_hand_joints.npy'') = D @ n @ ''_hand_joints.npy''"
  using npy_path_npy [of "D @ n @ ''_body_joints''"] npy_path_npy [of "D @ n @ ''_hand_joints''"]
  by simp_all

lemma process_one_ok:
  assumes "np_array (ArrayList (handKeypoints (emplaceAndPop w (imread w p)))) = Inr h"
  shows "images_loop w D i (p # rest) =
     (let evs = [Imread p, EmplaceAndPop (imread w p),
                 WriteNpy (D @ format_05d i @ ''_body_joints.npy'')
                   (poseKeypoints (emplaceAndPop w (imread w p))),
                 WriteNpy (D @ format_05d i @ ''_hand_joints.npy'') h,
                 Imwrite (D @ format_05d i @ ''_result.jpg'')
                   (cvOutputData (emplaceAndPop w (imread w p))),
                 Imshow ''Detection Result'' (cvOutputData (emplaceAndPop w (imread w p))),
                 WaitKey 15]
      in if waitKey w i = 27 then (None, evs)
         else (fst (images_loop w D (Suc i) rest), evs @ snd (images_loop w D (Suc i) rest)))"
  by (simp add: images_loop.simps(2) detect_def save_joints_ok [OF assms] body_hand_names
      Let_def split: prod.splits)

lemma process_one_err:
  assumes "np_array (ArrayList (handKeypoints (emplaceAndPop w (imread w p)))) = Inl e"
  shows "images_loop w D i (p # rest) =
     (Some e, [Imread p, EmplaceAndPop (imread w p),
               WriteNpy (D @ format_05d i @ ''_body_joints.npy'')
                 (poseKeypoints (emplaceAndPop w (imread w p)))])"
  by (simp add: images_loop.simps(2) detect_def save_joints_err [OF assms] body_hand_names
      Let_def)

lemma init_events:
  "OpenposeDetector_init w
     = (\<lparr>det_params = default_params (env_OPENPOSE_HOME w)\<rparr>,
        [Configure (default_params (env_OPENPOSE_HOME w)), Start])"
  by (simp add: OpenposeDetector_init_def set_openpose_params_def Let_def)

lemma makedir_quiet:
  "filter is_detection (makedir w f) = []"
  "concat (map frame_detected (makedir w f)) = []"
  "concat (map file_written (makedir w f)) = []"
  "concat (map configured (makedir w f)) = []"
  by (simp_all add: makedir_def Let_def)

lemma driver_unfold:
  "test_openpose_on_images w =
     (fst (images_loop w (ROOT w @ ''output/'') 0
             (get_images_on_directory w (image_dir (fst (parse_known_args w))))),
      [Configure (default_params (env_OPENPOSE_HOME w)), Start]
      @ makedir w (ROOT w @ ''output/'')
      @ snd (images_loop w (ROOT w @ ''output/'') 0
               (get_images_on_directory w (image_dir (fst (parse_known_args w))))))"
  by (simp add: test_openpose_on_images_def init_events Let_def split: prod.splits)

lemma loop_configures_nothing:
  "concat (map configured (snd (images_loop w D i ps))) = []"
proof (induction ps arbitrary: i)
  case Nil
  show ?case by simp
next
  case (Cons p rest)
  show ?case
  proof (cases "np_array (ArrayList (handKeypoints (emplaceAndPop w (imread w p))))")
    case (Inl e)
    then show ?thesis
      by (simp add: process_one_err)
  next
    case (Inr h)
    then show ?thesis
      using Cons.IH [of "Suc i"] by (simp add: process_one_ok Let_def)
  qed
qed

lemma driver_configures_defaults:
  "configured_params (snd (test_openpose_on_images w)) = [default_params (env_OPENPOSE_HOME w)]"
  by (simp add: driver_unfold configured_params_def makedir_quiet loop_configures_nothing)

lemma example_hands:
  "np_array (ArrayList (handKeypoints (emplaceAndPop (example_world l ps ks) img)))
     = Inr \<lparr>shape = [2, 1, 1, 3], elems = [1, 2, 1, 3, 4, 1]\<rparr>"
  by (simp add: example_world_def np_array_two)

text \<open>
  When the engine gives two hand arrays of different shapes, \<^verbatim>\<open>np.array\<close> raises in
  \<^verbatim>\<open>save_joints_positions\<close> and the run ends there, with the body keypoints of the first
  image as its only file.
\<close>

lemma ragged_hands_stop_the_run:
  "fst (test_openpose_on_images ragged_hands_world) = Some ValueError
   \<and> detection_calls (snd (test_openpose_on_images ragged_hands_world)) = 1
   \<and> map fst (files_written (snd (test_openpose_on_images ragged_hands_world)))
       = [''/r/output/00000_body_joints.npy'']"
proof -
  have e: "np_array (ArrayList (handKeypoints
             (emplaceAndPop ragged_hands_world (imread ragged_hands_world ''a.jpg''))))
           = Inl ValueError"
    by (simp add: ragged_hands_world_def np_array_two)
  have g: "get_images_on_directory ragged_hands_world
             (image_dir (fst (parse_known_args ragged_hands_world)))
           = [''a.jpg'', ''b.jpg'', ''c.jpg'']"
    and r: "ROOT ragged_hands_world = ''/r/''"
    by (simp_all add: ragged_hands_world_def three_images_world_def example_world_def)
  show ?thesis
    by (simp add: driver_unfold g r process_one_err [OF e] detection_calls_def files_written_def
        makedir_quiet format_05d_0)
qed

text \<open>
  C1 (the code does not do what the claim says): with the leftover tokens
  \<open>--number_people_max 1\<close> on the command line, the dictionary the driver configures
  the engine with has no key \<open>number_people_max\<close>, while the merge of the defaults with
  these tokens holds \<open>1\<close> under it. The driver configures the engine with the defaults,
  whatever the command line.
\<close>

theorem overrides_not_forwarded:
  "parse_known_args (example_world [''--number_people_max'', ''1''] [] (\<lambda>_. 0))
     = (\<lparr>image_dir = ''imgs/''\<rparr>, [''--number_people_max'', ''1''])
   \<and> map (\<lambda>p. p ''number_people_max'')
         (configured_params (snd (test_openpose_on_images
            (example_world [''--number_people_max'', ''1''] [] (\<lambda>_. 0)))))
       = [None]
   \<and> set_openpose_params ''/opt/openpose''
         (Some (\<lparr>image_dir = ''imgs/''\<rparr>, [''--number_people_max'', ''1'']))
         ''number_people_max''
       = Some (PyStr ''1'')"
  by (simp add: driver_configures_defaults example_world_def default_params_def
      set_openpose_params_merge upd_def str_remove_def)

text \<open>
  C8: when the enumeration of the input directory is empty, the driver ends without an
  error, after configuring and starting the engine and making the output directory; no
  frame is sent to the engine and no file is written.
\<close>

theorem empty_directory_no_work:
  assumes "get_images_on_directory w (image_dir (fst (parse_known_args w))) = []"
  shows "fst (test_openpose_on_images w) = None
         \<and> snd (test_openpose_on_images w)
             = [Configure (default_params (env_OPENPOSE_HOME w)), Start]
               @ makedir w (ROOT w @ ''output/'')
         \<and> detection_calls (snd (test_openpose_on_images w)) = 0
         \<and> files_written (snd (test_openpose_on_images w)) = []"
  using assms
  by (simp add: driver_unfold detection_calls_def files_written_def makedir_quiet)

theorem empty_directory_no_work_witness:
  "get_images_on_directory (example_world [] [] (\<lambda>_. 0))
      (image_dir (fst (parse_known_args (example_world [] [] (\<lambda>_. 0))))) = []
   \<and> fst (test_openpose_on_images (example_world [] [] (\<lambda>_. 0))) = None
   \<and> detection_calls (snd (test_openpose_on_images (example_world [] [] (\<lambda>_. 0)))) = 0
   \<and> files_written (snd (test_openpose_on_images (example_world [] [] (\<lambda>_. 0)))) = []"
proof -
  have e: "get_images_on_directory (example_world [] [] (\<lambda>_. 0))
      (image_dir (fst (parse_known_args (example_world [] [] (\<lambda>_. 0))))) = []"
    by (simp add: example_world_def)
  from e empty_directory_no_work [OF e] show ?thesis by blast
qed

text \<open>
  C7, amended: when the enumeration of the input directory yields three images, the key
  read after the first and after the second image is not 27, and for each image the two
  hand arrays of the engine have one shape (so that \<^verbatim>\<open>np.array\<close> gives an array \<open>h\<close>), the
  driver ends without an error after sending the three frames, in their order, to the
  engine, and it writes nine files, pairwise different: for image \<open>i\<close> its body
  keypoints, its stacked hand keypoints and its annotated image, under the prefixes
  \<open>00000\<close>, \<open>00001\<close> and \<open>00002\<close> in the output directory.
\<close>

theorem three_images_without_quit:
  assumes "get_images_on_directory w (image_dir (fst (parse_known_args w))) = [p0, p1, p2]"
    and "waitKey w 0 \<noteq> 27" and "waitKey w 1 \<noteq> 27"
    and "np_array (ArrayList (handKeypoints (emplaceAndPop w (imread w p0)))) = Inr h0"
    and "np_array (ArrayList (handKeypoints (emplaceAndPop w (imread w p1)))) = Inr h1"
    and "np_array (ArrayList (handKeypoints (emplaceAndPop w (imread w p2)))) = Inr h2"
  shows "fst (test_openpose_on_images w) = None
         \<and> frames_detected (snd (test_openpose_on_images w))
             = [imread w p0, imread w p1, imread w p2]
         \<and> detection_calls (snd (test_openpose_on_images w)) = 3
         \<and> files_written (snd (test_openpose_on_images w))
             = [(ROOT w @ ''output/'' @ ''00000'' @ ''_body_joints.npy'',
                   NpyFile (poseKeypoints (emplaceAndPop w (imread w p0)))),
                (ROOT w @ ''output/'' @ ''00000'' @ ''_hand_joints.npy'', NpyFile h0),
                (ROOT w @ ''output/'' @ ''00000'' @ ''_result.jpg'',
                   ImageFile (cvOutputData (emplaceAndPop w (imread w p0)))),
                (ROOT w @ ''output/'' @ ''00001'' @ ''_body_joints.npy'',
                   NpyFile (poseKeypoints (emplaceAndPop w (imread w p1)))),
                (ROOT w @ ''output/'' @ ''00001'' @ ''_hand_joints.npy'', NpyFile h1),
                (ROOT w @ ''output/'' @ ''00001'' @ ''_result.jpg'',
                   ImageFile (cvOutputData (emplaceAndPop w (imread w p1)))),
                (ROOT w @ ''output/'' @ ''00002'' @ ''_body_joints.npy'',
                   NpyFile (poseKeypoints (emplaceAndPop w (imread w p2)))),
                (ROOT w @ ''output/'' @ ''00002'' @ ''_hand_joints.npy'', NpyFile h2),
                (ROOT w @ ''output/'' @ ''00002'' @ ''_result.jpg'',
                   ImageFile (cvOutputData (emplaceAndPop w (imread w p2))))]
         \<and> distinct (map fst (files_written (snd (test_openpose_on_images w))))"
proof -
  let ?D = "ROOT w @ ''output/''"
  let ?L = "images_loop w ?D 0 [p0, p1, p2]"
  note steps = process_one_ok [OF assms(4)] process_one_ok [OF assms(5)]
    process_one_ok [OF assms(6)]
  have r: "fst ?L = None"
    using assms(2,3) by (simp add: steps Let_def)
  have d: "length (filter is_detection (snd ?L)) = 3"
    using assms(2,3) by (simp add: steps Let_def)
  have fr: "concat (map frame_detected (snd ?L)) = [imread w p0, imread w p1, imread w p2]"
    using assms(2,3) by (simp add: steps Let_def)
  have f: "concat (map file_written (snd ?L))
             = [(?D @ ''00000'' @ ''_body_joints.npy'',
                   NpyFile (poseKeypoints (emplaceAndPop w (imread w p0)))),
                (?D @ ''00000'' @ ''_hand_joints.npy'', NpyFile h0),
                (?D @ ''00000'' @ ''_result.jpg'',
                   ImageFile (cvOutputData (emplaceAndPop w (imread w p0)))),
                (?D @ ''00001'' @ ''_body_joints.npy'',
                   NpyFile (poseKeypoints (emplaceAndPop w (imread w p1)))),
                (?D @ ''00001'' @ ''_hand_joints.npy'', NpyFile h1),
                (?D @ ''00001'' @ ''_result.jpg'',
                   ImageFile (cvOutputData (emplaceAndPop w (imread w p1)))),
                (?D @ ''00002'' @ ''_body_joints.npy'',
                   NpyFile (poseKeypoints (emplaceAndPop w (imread w p2)))),
                (?D @ ''00002'' @ ''_hand_joints.npy'', NpyFile h2),
                (?D @ ''00002'' @ ''_result.jpg'',
                   ImageFile (cvOutputData (emplaceAndPop w (imread w p2))))]"
    using assms(2,3)
    by (simp add: steps Let_def format_05d_0 format_05d_1 format_05d_2)
  have fw: "files_written (snd (test_openpose_on_images w)) = concat (map file_written (snd ?L))"
    by (simp add: driver_unfold files_written_def makedir_quiet assms(1))
  have "distinct (map fst (concat (map file_written (snd ?L))))"
    unfolding f by simp
  then show ?thesis
    using r d fr f fw
    by (simp add: driver_unfold detection_calls_def frames_detected_def makedir_quiet assms(1))
qed

theorem three_images_without_quit_witness:
  "get_images_on_directory (three_images_world (\<lambda>_. 0))
      (image_dir (fst (parse_known_args (three_images_world (\<lambda>_. 0)))))
     = [''a.jpg'', ''b.jpg'', ''c.jpg'']
   \<and> waitKey (three_images_world (\<lambda>_. 0)) 0 \<noteq> 27
   \<and> waitKey (three_images_world (\<lambda>_. 0)) 1 \<noteq> 27
   \<and> np_array (ArrayList (handKeypoints (emplaceAndPop (three_images_world (\<lambda>_. 0))
         (imread (three_images_world (\<lambda>_. 0)) ''a.jpg''))))
       = Inr \<lparr>shape = [2, 1, 1, 3], elems = [1, 2, 1, 3, 4, 1]\<rparr>
   \<and> np_array (ArrayList (handKeypoints (emplaceAndPop (three_images_world (\<lambda>_. 0))
         (imread (three_images_world (\<lambda>_. 0)) ''b.jpg''))))
       = Inr \<lparr>shape = [2, 1, 1, 3], elems = [1, 2, 1, 3, 4, 1]\<rparr>
   \<and> np_array (ArrayList (handKeypoints (emplaceAndPop (three_images_world (\<lambda>_. 0))
         (imread (three_images_world (\<lambda>_. 0)) ''c.jpg''))))
       = Inr \<lparr>shape = [2, 1, 1, 3], elems = [1, 2, 1, 3, 4, 1]\<rparr>
   \<and> fst (test_openpose_on_images (three_images_world (\<lambda>_. 0))) = None
   \<and> frames_detected (snd (test_openpose_on_images (three_images_world (\<lambda>_. 0)))) = [5, 5, 5]
   \<and> detection_calls (snd (test_openpose_on_images (three_images_world (\<lambda>_. 0)))) = 3
   \<and> map fst (files_written (snd (test_openpose_on_images (three_images_world (\<lambda>_. 0)))))
       = [''/r/output/00000_body_joints.npy'', ''/r/output/00000_hand_joints.npy'',
          ''/r/output/00000_result.jpg'',
          ''/r/output/00001_body_joints.npy'', ''/r/output/00001_hand_joints.npy'',
          ''/r/output/00001_result.jpg'',
          ''/r/output/00002_body_joints.npy'', ''/r/output/00002_hand_joints.npy'',
          ''/r/output/00002_result.jpg'']"
proof -
  let ?w = "three_images_world (\<lambda>_. 0)"
  let ?H = "\<lparr>shape = [2, 1, 1, 3], elems = [1, 2, 1, 3, 4, 1 :: real]\<rparr>"
  have e: "get_images_on_directory ?w (image_dir (fst (parse_known_args ?w)))
             = [''a.jpg'', ''b.jpg'', ''c.jpg'']"
    by (simp add: three_images_world_def example_world_def)
  have k0: "waitKey ?w 0 \<noteq> 27" and k1: "waitKey ?w 1 \<noteq> 27"
    by (simp_all add: three_images_world_def example_world_def)
  have ha: "np_array (ArrayList (handKeypoints (emplaceAndPop ?w (imread ?w ''a.jpg'')))) = Inr ?H"
    and hb: "np_array (ArrayList (handKeypoints (emplaceAndPop ?w (imread ?w ''b.jpg'')))) = Inr ?H"
    and hc: "np_array (ArrayList (handKeypoints (emplaceAndPop ?w (imread ?w ''c.jpg'')))) = Inr ?H"
    by (simp_all only: three_images_world_def example_hands)
  have r: "ROOT ?w = ''/r/''" and i: "imread ?w = length"
    by (simp_all add: three_images_world_def example_world_def)
  note run = three_images_without_quit [OF e k0 k1 ha hb hc]
  have c1: "fst (test_openpose_on_images ?w) = None"
    using run by blast
  have c2: "frames_detected (snd (test_openpose_on_images ?w)) = [5, 5, 5]"
    using run by (simp add: i)
  have c3: "detection_calls (snd (test_openpose_on_images ?w)) = 3"
    using run by blast
  have c4: "map fst (files_written (snd (test_openpose_on_images ?w)))
       = [''/r/output/00000_body_joints.npy'', ''/r/output/00000_hand_joints.npy'',
          ''/r/output/00000_result.jpg'',
          ''/r/output/00001_body_joints.npy'', ''/r/output/00001_hand_joints.npy'',
          ''/r/output/00001_result.jpg'',
          ''/r/output/00002_body_joints.npy'', ''/r/output/00002_hand_joints.npy'',
          ''/r/output/00002_result.jpg'']"
    using run by (simp add: r)
  from e k0 k1 ha hb hc c1 c2 c3 c4 show ?thesis
    by blast
qed

text \<open>
  C7, as the spec states it, fails: with three images in the directory and the key 27 read
  after the first one, the driver stops there, after one detection call and three files.
\<close>

theorem three_images_quit_counterexample:
  "get_images_on_directory (three_images_world (\<lambda>_. 27))
      (image_dir (fst (parse_known_args (three_images_world (\<lambda>_. 27)))))
     = [''a.jpg'', ''b.jpg'', ''c.jpg'']
   \<and> fst (test_openpose_on_images (three_images_world (\<lambda>_. 27))) = None
   \<and> detection_calls (snd (test_openpose_on_images (three_images_world (\<lambda>_. 27)))) = 1
   \<and> map fst (files_written (snd (test_openpose_on_images (three_images_world (\<lambda>_. 27)))))
       = [''/r/output/00000_body_joints.npy'', ''/r/output/00000_hand_joints.npy'',
          ''/r/output/00000_result.jpg'']"
proof -
  let ?w = "three_images_world (\<lambda>_. 27)"
  have h: "np_array (ArrayList (handKeypoints (emplaceAndPop ?w (imread ?w ''a.jpg''))))
             = Inr \<lparr>shape = [2, 1, 1, 3], elems = [1, 2, 1, 3, 4, 1]\<rparr>"
    by (simp add: three_images_world_def example_hands)
  have e: "get_images_on_directory ?w (image_dir (fst (parse_known_args ?w)))
             = [''a.jpg'', ''b.jpg'', ''c.jpg'']"
    and r: "ROOT ?w = ''/r/''" and k: "waitKey ?w 0 = 27"
    by (simp_all add: three_images_world_def example_world_def)
  show ?thesis
    by (simp add: driver_unfold e r k process_one_ok [OF h] detection_calls_def
        files_written_def makedir_quiet format_05d_0)
qed

text \<open>
  C9: what the persister saves is read back as it was. After
  \<^verbatim>\<open>save_binary(filename, data)\<close>, \<^verbatim>\<open>np.load\<close> of the file that \<^verbatim>\<open>np.save\<close> wrote gives the
  array \<^verbatim>\<open>np.array(data)\<close>, shape and elements, for a body array and for a list of hand
  arrays of one shape; that file is \<open>filename\<close> itself when the name ends with
  \<^verbatim>\<open>.npy\<close>, as the names of the batch driver do. After \<^verbatim>\<open>save_joints_positions\<close> with
  names of two different files, the body keypoints are read back from the first and the
  stacked hand keypoints from the second.
\<close>

theorem saved_arrays_load_back:
  "np_load (file_store (snd (save_binary filename (AnArray a))) fs) (npy_path filename) = Inr a
   \<and> (np_array (ArrayList xs) = Inr h
        \<longrightarrow> np_load (file_store (snd (save_binary filename (ArrayList xs))) fs)
              (npy_path filename) = Inr h)
   \<and> (suffix ''.npy'' filename \<longrightarrow> npy_path filename = filename)
   \<and> (np_array (ArrayList (handKeypoints datum)) = Inr h
        \<and> npy_path pose_filename \<noteq> npy_path hand_filename
        \<longrightarrow> fst (save_joints_positions datum pose_filename hand_filename) = None
            \<and> np_load (file_store (snd (save_joints_positions datum pose_filename hand_filename))
                        fs) (npy_path pose_filename)
                = Inr (poseKeypoints datum)
            \<and> np_load (file_store (snd (save_joints_positions datum pose_filename hand_filename))
                        fs) (npy_path hand_filename)
                = Inr h)"
proof -
  have one: "np_load (file_store (snd (save_binary filename (AnArray a))) fs)
               (npy_path filename) = Inr a"
    by (simp add: save_binary_def np_array_AnArray np_save_def file_store_def
        files_written_def np_load_def)
  have list: "np_array (ArrayList xs) = Inr h
        \<longrightarrow> np_load (file_store (snd (save_binary filename (ArrayList xs))) fs)
              (npy_path filename) = Inr h"
    by (simp add: save_binary_def np_save_def file_store_def files_written_def np_load_def)
  have name: "suffix ''.npy'' filename \<longrightarrow> npy_path filename = filename"
    by (simp add: npy_path_suffix)
  have both: "np_array (ArrayList (handKeypoints datum)) = Inr h
        \<and> npy_path pose_filename \<noteq> npy_path hand_filename
        \<longrightarrow> fst (save_joints_positions datum pose_filename hand_filename) = None
            \<and> np_load (file_store (snd (save_joints_positions datum pose_filename hand_filename))
                        fs) (npy_path pose_filename)
                = Inr (poseKeypoints datum)
            \<and> np_load (file_store (snd (save_joints_positions datum pose_filename hand_filename))
                        fs) (npy_path hand_filename)
                = Inr h"
    by (simp add: save_joints_ok file_store_def files_written_def np_load_def)
  from one list name both show ?thesis by blast
qed

theorem saved_arrays_load_back_witness:
  "np_array (ArrayList [\<lparr>shape = [1, 1, 3], elems = [1, 2, 1 :: real]\<rparr>,
                         \<lparr>shape = [1, 1, 3], elems = [3, 4, 1]\<rparr>])
     = Inr \<lparr>shape = [2, 1, 1, 3], elems = [1, 2, 1, 3, 4, 1]\<rparr>
   \<and> suffix ''.npy'' ''/r/output/00000_body_joints.npy''
   \<and> npy_path ''/r/output/00000_body_joints.npy'' \<noteq> npy_path ''/r/output/00000_hand_joints.npy''
   \<and> np_load
        (file_store
           (snd (save_joints_positions
              \<lparr>poseKeypoints = \<lparr>shape = [1, 1, 3], elems = [10, 20, 1 :: real]\<rparr>,
               handKeypoints = [\<lparr>shape = [1, 1, 3], elems = [1, 2, 1]\<rparr>,
                                \<lparr>shape = [1, 1, 3], elems = [3, 4, 1]\<rparr>],
               cvOutputData = (0 :: nat)\<rparr>
              ''/r/output/00000_body_joints.npy'' ''/r/output/00000_hand_joints.npy''))
           Map.empty)
        ''/r/output/00000_body_joints.npy''
       = Inr \<lparr>shape = [1, 1, 3], elems = [10, 20, 1]\<rparr>
   \<and> np_load
        (file_store
           (snd (save_joints_positions
              \<lparr>poseKeypoints = \<lparr>shape = [1, 1, 3], elems = [10, 20, 1 :: real]\<rparr>,
               handKeypoints = [\<lparr>shape = [1, 1, 3], elems = [1, 2, 1]\<rparr>,
                                \<lparr>shape = [1, 1, 3], elems = [3, 4, 1]\<rparr>],
               cvOutputData = (0 :: nat)\<rparr>
              ''/r/output/00000_body_joints.npy'' ''/r/output/00000_hand_joints.npy''))
           Map.empty)
        ''/r/output/00000_hand_joints.npy''
       = Inr \<lparr>shape = [2, 1, 1, 3], elems = [1, 2, 1, 3, 4, 1]\<rparr>"
proof -
  have p: "npy_path ''/r/output/00000_body_joints.npy'' = ''/r/output/00000_body_joints.npy''"
    and q: "npy_path ''/r/output/00000_hand_joints.npy'' = ''/r/output/00000_hand_joints.npy''"
    and s: "suffix ''.npy'' ''/r/output/00000_body_joints.npy''"
    using npy_path_npy [of "''/r/output/00000_body_joints''"]
      npy_path_npy [of "''/r/output/00000_hand_joints''"]
      suffix_npy [of "''/r/output/00000_body_joints''"]
    by simp_all
  show ?thesis
    using s saved_arrays_load_back
      [of "''/r/output/00000_body_joints.npy''"
          "\<lparr>shape = [1, 1, 3], elems = [10, 20, 1 :: real]\<rparr>"
          "Map.empty :: (real, nat) store"
          "[\<lparr>shape = [1, 1, 3], elems = [1, 2, 1]\<rparr>, \<lparr>shape = [1, 1, 3], elems = [3, 4, 1]\<rparr>]"
          "\<lparr>shape = [2, 1, 1, 3], elems = [1, 2, 1, 3, 4, 1]\<rparr>"
          "\<lparr>poseKeypoints = \<lparr>shape = [1, 1, 3], elems = [10, 20, 1 :: real]\<rparr>,
            handKeypoints = [\<lparr>shape = [1, 1, 3], elems = [1, 2, 1]\<rparr>,
                             \<lparr>shape = [1, 1, 3], elems = [3, 4, 1]\<rparr>],
            cvOutputData = (0 :: nat)\<rparr>"
          "''/r/output/00000_body_joints.npy''" "''/r/output/00000_hand_joints.npy''"]
    by (simp add: p q np_array_two)
qed

text \<open>
  With a name that does not end with \<^verbatim>\<open>.npy\<close> the array is in the file of the name with
  the suffix, and \<^verbatim>\<open>np.load\<close> of the name as given finds no file.
\<close>

lemma load_of_unsuffixed_name:
  "np_load (file_store (snd (save_binary ''pose'' (AnArray a))) Map.empty) ''pose''
     = Inl FileNotFoundError
   \<and> np_load (file_store (snd (save_binary ''pose'' (AnArray a))) Map.empty) ''pose.npy''
       = Inr a"
  by (simp add: save_binary_def np_array_AnArray np_save_def npy_path_def suffix_def
      file_store_def files_written_def np_load_def)

text \<open>
  C10: a call of \<^verbatim>\<open>detect\<close> with \<^verbatim>\<open>is_return_joints=True\<close> sends one frame to the engine,
  and when it returns joints, the hand joints are \<^verbatim>\<open>np.array(datum.handKeypoints)\<close> as it
  is: the value of \<^verbatim>\<open>np.swapaxes\<close> is dropped. For two hand arrays of shape \<open>[P, M, 3]\<close>
  the call returns, and the array returned has the shape \<open>[2, P, M, 3]\<close>, the left hand's
  elements before the right hand's.
\<close>

theorem detect_returns_hands_unswapped:
  "snd (detect w img True) = [EmplaceAndPop img]
   \<and> (fst (detect w img True) = Inr (Joints b h)
        \<longrightarrow> b = poseKeypoints (emplaceAndPop w img)
            \<and> np_array (ArrayList (handKeypoints (emplaceAndPop w img))) = Inr h)
   \<and> (handKeypoints (emplaceAndPop w img) = [L, R] \<and> shape L = [P, M, 3] \<and> shape R = [P, M, 3]
        \<longrightarrow> fst (detect w img True)
              = Inr (Joints (poseKeypoints (emplaceAndPop w img))
                       \<lparr>shape = [2, P, M, 3], elems = elems L @ elems R\<rparr>))"
  by (auto simp: detect_def Let_def np_array_AnArray np_array_two np_swapaxes_def
      split: sum.splits)

theorem detect_returns_hands_unswapped_witness:
  "handKeypoints (emplaceAndPop (example_world [] [] (\<lambda>_. 0)) 7)
     = [\<lparr>shape = [1, 1, 3], elems = [1, 2, 1]\<rparr>, \<lparr>shape = [1, 1, 3], elems = [3, 4, 1]\<rparr>]
   \<and> fst (detect (example_world [] [] (\<lambda>_. 0)) 7 True)
       = Inr (Joints \<lparr>shape = [1, 1, 3], elems = [10, 20, 1]\<rparr>
                     \<lparr>shape = [2, 1, 1, 3], elems = [1, 2, 1, 3, 4, 1]\<rparr>)
   \<and> np_array (ArrayList (handKeypoints (emplaceAndPop (example_world [] [] (\<lambda>_. 0)) 7)))
       = Inr \<lparr>shape = [2, 1, 1, 3], elems = [1, 2, 1, 3, 4, 1]\<rparr>
   \<and> np_swapaxes \<lparr>shape = [2, 1, 1, 3], elems = [1, 2, 1, 3, 4, 1 :: real]\<rparr> 0 1
       = Inr \<lparr>shape = [1, 2, 1, 3], elems = [1, 2, 1, 3, 4, 1]\<rparr>"
proof -
  have s: "np_swapaxes \<lparr>shape = [2, 1, 1, 3], elems = [1, 2, 1, 3, 4, 1 :: real]\<rparr> 0 1
             = Inr \<lparr>shape = [1, 2, 1, 3], elems = [1, 2, 1, 3, 4, 1]\<rparr>"
    by (simp add: np_swapaxes_def swap_at_def flat_index_def upt_rec)
  show ?thesis
    using s detect_returns_hands_unswapped
      [of "example_world [] [] (\<lambda>_. 0)" 7
          "\<lparr>shape = [1, 1, 3], elems = [10, 20, 1]\<rparr>"
          "\<lparr>shape = [2, 1, 1, 3], elems = [1, 2, 1, 3, 4, 1]\<rparr>"
          "\<lparr>shape = [1, 1, 3], elems = [1, 2, 1]\<rparr>"
          "\<lparr>shape = [1, 1, 3], elems = [3, 4, 1]\<rparr>" 1 1]
    by (simp add: example_world_def)
qed

end
